theory Spec2Isabelle
  imports Main
begin

section \<open>Python values as the scripts see them\<close>

text \<open>
  The scripts under \<^verbatim>\<open>docs/examples\<close> exchange JSON values: the bodies of the HTTP
  bridge, the frames of the DevTools connection and the arguments of the helpers are
  Python objects that came from, or go to, \<^verbatim>\<open>json\<close>. A dict is an association list
  read with \<open>map_of\<close>. JSON numbers are restricted to integers: no value the modelled
  functions build or inspect is a float.
\<close>

datatype json =
    JNull
  | JBool bool
  | JInt int
  | JStr string
  | JList "json list"
  | JObj "(string \<times> json) list"

text \<open>The exceptions the modelled code can raise, with the payload they carry.\<close>

datatype py_error =
    TimeoutError string
  | Exception json
  | KeyError string
  | TypeError
  | AttributeError
  | JSONDecodeError
  | ConnectionClosed

text \<open>Python's truth value of an object, as \<^verbatim>\<open>if x:\<close> and \<^verbatim>\<open>x or y\<close> read it.\<close>

fun truthy :: "json \<Rightarrow> bool" where
  "truthy JNull = False"
| "truthy (JBool b) = b"
| "truthy (JInt n) = (n \<noteq> 0)"
| "truthy (JStr s) = (s \<noteq> [])"
| "truthy (JList xs) = (xs \<noteq> [])"
| "truthy (JObj kvs) = (kvs \<noteq> [])"

text \<open>\<^verbatim>\<open>x or {}\<close>: the value itself when it is true, else a fresh empty dict.\<close>

definition or_empty :: "json \<Rightarrow> json" where
  "or_empty x = (if truthy x then x else JObj [])"

text \<open>
  \<^verbatim>\<open>d[k]\<close> with a string key: a dict raises KeyError on a missing key, every other
  JSON value raises TypeError (a list or a string wants integer indices, the others are
  not subscriptable).
\<close>

fun getitem :: "json \<Rightarrow> string \<Rightarrow> py_error + json" where
  "getitem (JObj kvs) k = (case map_of kvs k of None \<Rightarrow> Inl (KeyError k) | Some v \<Rightarrow> Inr v)"
| "getitem _ k = Inl TypeError"

text \<open>\<^verbatim>\<open>d.get(k, default)\<close>: only a dict has the method.\<close>

fun dict_get :: "json \<Rightarrow> string \<Rightarrow> json \<Rightarrow> py_error + json" where
  "dict_get (JObj kvs) k d = Inr (case map_of kvs k of None \<Rightarrow> d | Some v \<Rightarrow> v)"
| "dict_get _ k d = Inl AttributeError"

text \<open>
  Keys of a Python dict. A JSON string, number, boolean or null is hashable; a list or a
  dict is not (TypeError). \<^verbatim>\<open>True\<close> and \<^verbatim>\<open>1\<close> (and \<^verbatim>\<open>False\<close>, \<^verbatim>\<open>0\<close>) are equal
  with equal hashes, so they are the same key.
\<close>

datatype pykey = KStr string | KNum int | KNone

fun as_key :: "json \<Rightarrow> pykey option" where
  "as_key (JStr s) = Some (KStr s)"
| "as_key (JInt n) = Some (KNum n)"
| "as_key (JBool b) = Some (KNum (if b then 1 else 0))"
| "as_key JNull = Some KNone"
| "as_key (JList xs) = None"
| "as_key (JObj kvs) = None"

section \<open>The HTTP bridge server (cdp-e2e-test.py, lines 23 to 40)\<close>

text \<open>
  The two module-level variables \<^verbatim>\<open>command_queue = []\<close> and \<^verbatim>\<open>response_dict = {}\<close>.
\<close>

record bridge =
  command_queue :: "json list"
  response_dict :: "pykey \<rightharpoonup> json"

definition bridge0 :: bridge where
  "bridge0 = \<lparr>command_queue = [], response_dict = Map.empty\<rparr>"

text \<open>
  \<^verbatim>\<open>get_command\<close>: the reply is \<^verbatim>\<open>jsonify(cmd)\<close> for the popped head, or
  \<^verbatim>\<open>jsonify(None)\<close>, the JSON null.
\<close>

definition get_command :: "'a bridge_scheme \<Rightarrow> json \<times> 'a bridge_scheme" where
  "get_command st =
     (case command_queue st of
        [] \<Rightarrow> (JNull, st)
      | cmd # rest \<Rightarrow> (cmd, st\<lparr>command_queue := rest\<rparr>))"

text \<open>
  \<^verbatim>\<open>post_response\<close>: \<^verbatim>\<open>response_dict[data['id']] = data['result']\<close>. Python
  evaluates the right-hand side first, then the subscript, then stores (hashing the key).
  An exception leaves the state as it was (Flask answers 500).
\<close>

definition post_response :: "json \<Rightarrow> 'a bridge_scheme \<Rightarrow> (py_error + json) \<times> 'a bridge_scheme" where
  "post_response data st =
     (case getitem data ''result'' of
        Inl e \<Rightarrow> (Inl e, st)
      | Inr r \<Rightarrow>
          (case getitem data ''id'' of
             Inl e \<Rightarrow> (Inl e, st)
           | Inr i \<Rightarrow>
               (case as_key i of
                  None \<Rightarrow> (Inl TypeError, st)
                | Some k \<Rightarrow>
                    (Inr (JObj [(''status'', JStr ''ok'')]),
                     st\<lparr>response_dict := (response_dict st)(k \<mapsto> r)\<rparr>))))"


text \<open>\<^verbatim>\<open>command_queue.append(command_obj)\<close>, the only place a command enters the queue.\<close>

definition enqueue :: "json \<Rightarrow> 'a bridge_scheme \<Rightarrow> 'a bridge_scheme" where
  "enqueue command_obj st = st\<lparr>command_queue := command_queue st @ [command_obj]\<rparr>"

section \<open>The world around the test driver\<close>

text \<open>
  The Flask server runs in a background thread while the main thread runs the test, so
  requests of the extension are handled while the main thread sleeps. Each call of
  \<^verbatim>\<open>time.sleep\<close> is one nap: the environment decides which requests arrive during
  it and by how many milliseconds the sleep overshoots. Time is counted in milliseconds;
  everything but sleeping takes no time. \<^verbatim>\<open>uuid.uuid4()\<close> is the standard library's:
  \<open>uuid_source w n\<close> is the string of the \<open>n\<close>-th identifier it hands out.
\<close>

datatype request = GetCommand | PostResponse json

record nap =
  overshoot :: nat
  arrivals :: "request list"

record world = bridge +
  clock :: int
  naps :: nat
  env :: "nat \<Rightarrow> nap"
  uuid_calls :: nat
  uuid_source :: "nat \<Rightarrow> string"

fun handle :: "request \<Rightarrow> 'a bridge_scheme \<Rightarrow> 'a bridge_scheme" where
  "handle GetCommand st = snd (get_command st)"
| "handle (PostResponse data) st = snd (post_response data st)"

definition sleep :: "int \<Rightarrow> world \<Rightarrow> world" where
  "sleep ms w =
     (let n = env w (naps w)
      in (fold handle (arrivals n) w)
           \<lparr>clock := clock w + ms + int (overshoot n), naps := Suc (naps w)\<rparr>)"

definition uuid4_str :: "world \<Rightarrow> string \<times> world" where
  "uuid4_str w = (uuid_source w (uuid_calls w), w\<lparr>uuid_calls := Suc (uuid_calls w)\<rparr>)"

section \<open>The bridge client (cdp-e2e-test.py, class ExtensionBridge)\<close>

definition command_obj :: "string \<Rightarrow> string \<Rightarrow> json \<Rightarrow> json" where
  "command_obj cmd_id command params =
     JObj [(''id'', JStr cmd_id), (''command'', JStr command), (''params'', or_empty params)]"

text \<open>
  The wait loop of \<^verbatim>\<open>send_command\<close> (lines 68 to 77): test the table, test the
  deadline, sleep a tenth of a second; on leaving the loop pop the response. The timeout
  is in milliseconds (the default \<^verbatim>\<open>timeout=5\<close> is 5000).
\<close>

function send_command_wait ::
  "string \<Rightarrow> string \<Rightarrow> int \<Rightarrow> int \<Rightarrow> world \<Rightarrow> (py_error + json) \<times> world" where
  "send_command_wait cmd_id command start_time timeout w =
     (case response_dict w (KStr cmd_id) of
        Some response \<Rightarrow>
          (Inr response, w\<lparr>response_dict := (response_dict w)(KStr cmd_id := None)\<rparr>)
      | None \<Rightarrow>
          if clock w - start_time > timeout
          then (Inl (TimeoutError (''Extension did not respond to '' @ command)), w)
          else send_command_wait cmd_id command start_time timeout (sleep 100 w))"
  by pat_completeness auto
termination
  by (relation "measure (\<lambda>(cmd_id, command, start_time, timeout, w).
        nat (start_time + timeout + 1 - clock w))")
     (auto simp: sleep_def Let_def)

definition bridge_send_command ::
  "string \<Rightarrow> json \<Rightarrow> int \<Rightarrow> world \<Rightarrow> (py_error + json) \<times> world" where
  "bridge_send_command command params timeout w =
     (case uuid4_str w of
        (cmd_id, w1) \<Rightarrow>
          (let w2 = enqueue (command_obj cmd_id command params) w1
           in send_command_wait cmd_id command (clock w2) timeout w2))"

text \<open>
  Lines 83 to 86, the same in \<^verbatim>\<open>get_active_tab\<close> and \<^verbatim>\<open>get_all_tabs\<close>:
  \<^verbatim>\<open>response.get('success')\<close>, then \<^verbatim>\<open>response['data']\<close> or
  \<^verbatim>\<open>raise Exception(response.get('error', 'Unknown error'))\<close>.
\<close>

definition decode_response :: "json \<Rightarrow> py_error + json" where
  "decode_response response =
     (case dict_get response ''success'' JNull of
        Inl e \<Rightarrow> Inl e
      | Inr ok \<Rightarrow>
          if truthy ok then getitem response ''data''
          else (case dict_get response ''error'' (JStr ''Unknown error'') of
                  Inl e \<Rightarrow> Inl e
                | Inr msg \<Rightarrow> Inl (Exception msg)))"

definition get_active_tab :: "world \<Rightarrow> (py_error + json) \<times> world" where
  "get_active_tab w =
     (case bridge_send_command ''get_active_tab'' JNull 5000 w of
        (Inl e, w') \<Rightarrow> (Inl e, w')
      | (Inr response, w') \<Rightarrow> (decode_response response, w'))"

text \<open>
  A history of the queue: commands appended by any number of \<^verbatim>\<open>send_command\<close>
  callers, interleaved with polls of \<^verbatim>\<open>get_command\<close>. \<open>run_ops\<close> returns the
  replies of the polls in order; \<open>claimed\<close> keeps those that are a command.
\<close>

datatype queue_op = Enqueue string string json | Claim

fun run_ops :: "queue_op list \<Rightarrow> 'a bridge_scheme \<Rightarrow> json list \<times> 'a bridge_scheme" where
  "run_ops [] st = ([], st)"
| "run_ops (Enqueue i c p # ops) st = run_ops ops (enqueue (command_obj i c p) st)"
| "run_ops (Claim # ops) st =
     (case get_command st of
        (reply, st1) \<Rightarrow>
          (case run_ops ops st1 of (replies, st2) \<Rightarrow> (reply # replies, st2)))"

fun enqueued :: "queue_op list \<Rightarrow> json list" where
  "enqueued [] = []"
| "enqueued (Enqueue i c p # ops) = command_obj i c p # enqueued ops"
| "enqueued (Claim # ops) = enqueued ops"

definition claimed :: "json list \<Rightarrow> json list" where
  "claimed replies = filter (\<lambda>r. r \<noteq> JNull) replies"

text \<open>
  Lines 56 to 64 of \<^verbatim>\<open>send_command\<close> on their own: draw the identifier, build the
  command, append it to the queue. \<open>appended\<close> is what these lines added to the queue,
  read back from the queue.
\<close>

definition queue_command :: "string \<Rightarrow> json \<Rightarrow> world \<Rightarrow> world" where
  "queue_command command params w =
     (case uuid4_str w of
        (cmd_id, w1) \<Rightarrow> enqueue (command_obj cmd_id command params) w1)"

definition appended :: "string \<Rightarrow> json \<Rightarrow> world \<Rightarrow> json list" where
  "appended command params w =
     drop (length (command_queue w)) (command_queue (queue_command command params w))"

text \<open>
  The identifiers on the commands a run of \<^verbatim>\<open>send_command\<close> calls sends: for each
  call in turn, the \<^verbatim>\<open>'id'\<close> member of every command the call appends to the queue,
  as \<^verbatim>\<open>cmd['id']\<close> reads it; the next call starts in the world the call before it
  left, whatever its outcome was.
\<close>

fun issued_ids :: "(string \<times> json \<times> int) list \<Rightarrow> world \<Rightarrow> (py_error + json) list" where
  "issued_ids [] w = []"
| "issued_ids ((command, params, timeout) # calls) w =
     map (\<lambda>cmd. getitem cmd ''id'') (appended command params w)
       @ issued_ids calls (snd (bridge_send_command command params timeout w))"

section \<open>The DevTools client (cdp-e2e-test.py, class CDPClient)\<close>

text \<open>
  The websocket of the \<^verbatim>\<open>websocket\<close> package: what was sent (the dicts given to
  \<^verbatim>\<open>json.dumps\<close>), what the endpoint will deliver (each message either the text of a
  JSON value or text \<^verbatim>\<open>json.loads\<close> rejects), and how often \<^verbatim>\<open>close\<close> was
  called. \<^verbatim>\<open>recv\<close> with nothing left to deliver means the peer has gone: it raises.
\<close>

datatype wire_text = Encodes json | Garbled

record websocket =
  outgoing :: "json list"
  incoming :: "wire_text list"
  close_calls :: nat

definition ws_send :: "json \<Rightarrow> websocket \<Rightarrow> websocket" where
  "ws_send msg s = s\<lparr>outgoing := outgoing s @ [msg]\<rparr>"

definition ws_recv :: "websocket \<Rightarrow> (py_error + wire_text) \<times> websocket" where
  "ws_recv s =
     (case incoming s of
        [] \<Rightarrow> (Inl ConnectionClosed, s)
      | t # rest \<Rightarrow> (Inr t, s\<lparr>incoming := rest\<rparr>))"

definition ws_close :: "websocket \<Rightarrow> websocket" where
  "ws_close s = s\<lparr>close_calls := Suc (close_calls s)\<rparr>"

fun json_loads :: "wire_text \<Rightarrow> py_error + json" where
  "json_loads (Encodes v) = Inr v"
| "json_loads Garbled = Inl JSONDecodeError"

record CDPClient =
  ws :: websocket
  cmd_id :: int

text \<open>\<^verbatim>\<open>__init__\<close>, given the connection \<^verbatim>\<open>create_connection\<close> returned.\<close>

definition CDPClient_init :: "websocket \<Rightarrow> CDPClient" where
  "CDPClient_init conn = \<lparr>ws = conn, cmd_id = 0\<rparr>"

definition request_obj :: "int \<Rightarrow> string \<Rightarrow> json \<Rightarrow> json" where
  "request_obj n method params =
     JObj [(''id'', JInt n), (''method'', JStr method), (''params'', or_empty params)]"

definition cdp_send_command ::
  "string \<Rightarrow> json \<Rightarrow> CDPClient \<Rightarrow> (py_error + json) \<times> CDPClient" where
  "cdp_send_command method params c =
     (let c1 = c\<lparr>cmd_id := cmd_id c + 1\<rparr>;
          c2 = c1\<lparr>ws := ws_send (request_obj (cmd_id c1) method params) (ws c1)\<rparr>
      in case ws_recv (ws c2) of
           (Inl e, s) \<Rightarrow> (Inl e, c2\<lparr>ws := s\<rparr>)
         | (Inr t, s) \<Rightarrow> (json_loads t, c2\<lparr>ws := s\<rparr>))"

text \<open>Sequencing of calls that may raise: the first exception ends the sequence.\<close>

definition and_then ::
  "('s \<Rightarrow> (py_error + 'a) \<times> 's) \<Rightarrow> ('a \<Rightarrow> 's \<Rightarrow> (py_error + 'b) \<times> 's)
     \<Rightarrow> 's \<Rightarrow> (py_error + 'b) \<times> 's" where
  "and_then m f s = (case m s of (Inl e, s') \<Rightarrow> (Inl e, s') | (Inr a, s') \<Rightarrow> f a s')"

definition done_with :: "'a \<Rightarrow> 's \<Rightarrow> (py_error + 'a) \<times> 's" where
  "done_with a s = (Inr a, s)"

text \<open>The \<^verbatim>\<open>params\<close> dicts \<^verbatim>\<open>send_key\<close> builds for keyDown and keyUp, and for char.\<close>

definition key_params :: "string \<Rightarrow> json \<Rightarrow> json \<Rightarrow> json \<Rightarrow> json" where
  "key_params ev key_name code key_code =
     JObj ([(''type'', JStr ev), (''key'', key_name)]
           @ (if truthy code then [(''code'', code)] else [])
           @ (if truthy key_code
              then [(''windowsVirtualKeyCode'', key_code), (''nativeVirtualKeyCode'', key_code)]
              else []))"

definition char_params :: "json \<Rightarrow> json \<Rightarrow> json" where
  "char_params text key_name =
     JObj [(''type'', JStr ''char''), (''text'', text), (''key'', key_name)]"

text \<open>\<^verbatim>\<open>CDPClient.send_key\<close>; an omitted argument is \<^verbatim>\<open>None\<close>, that is \<open>JNull\<close>.\<close>

definition cdp_send_key ::
  "json \<Rightarrow> json \<Rightarrow> json \<Rightarrow> json \<Rightarrow> CDPClient \<Rightarrow> (py_error + unit) \<times> CDPClient" where
  "cdp_send_key key_name text code key_code =
     and_then (cdp_send_command ''Input.dispatchKeyEvent''
                 (key_params ''keyDown'' key_name code key_code)) (\<lambda>_.
     and_then (if truthy text
               then cdp_send_command ''Input.dispatchKeyEvent'' (char_params text key_name)
               else done_with JNull) (\<lambda>_.
     and_then (cdp_send_command ''Input.dispatchKeyEvent''
                 (key_params ''keyUp'' key_name code key_code)) (\<lambda>_.
     done_with ())))"

definition CDPClient_close :: "CDPClient \<Rightarrow> CDPClient" where
  "CDPClient_close c = c\<lparr>ws := ws_close (ws c)\<rparr>"

text \<open>
  \<^verbatim>\<open>send_key\<close> of cdp-send-sequence.py: the same three events written straight to the
  websocket, with the ids \<^verbatim>\<open>cmd_id_start\<close>, \<^verbatim>\<open>cmd_id_start + 1\<close> and
  \<^verbatim>\<open>cmd_id_start + 2\<close>; the replies are read and dropped without decoding.
\<close>

definition send_and_drop :: "json \<Rightarrow> websocket \<Rightarrow> (py_error + unit) \<times> websocket" where
  "send_and_drop command s =
     (case ws_recv (ws_send command s) of
        (Inl e, s') \<Rightarrow> (Inl e, s')
      | (Inr t, s') \<Rightarrow> (Inr (), s'))"

definition key_command :: "int \<Rightarrow> json \<Rightarrow> json" where
  "key_command n params =
     JObj [(''id'', JInt n), (''method'', JStr ''Input.dispatchKeyEvent''), (''params'', params)]"

definition send_key ::
  "json \<Rightarrow> json \<Rightarrow> json \<Rightarrow> json \<Rightarrow> int \<Rightarrow> websocket \<Rightarrow> (py_error + unit) \<times> websocket" where
  "send_key key_name text code key_code cmd_id_start =
     and_then (send_and_drop
                 (key_command cmd_id_start (key_params ''keyDown'' key_name code key_code))) (\<lambda>_.
     and_then (if truthy text
               then send_and_drop (key_command (cmd_id_start + 1) (char_params text key_name))
               else done_with ()) (\<lambda>_.
     send_and_drop
       (key_command (cmd_id_start + 2) (key_params ''keyUp'' key_name code key_code))))"

section \<open>The test (cdp-e2e-test.py, run_test)\<close>

text \<open>
  The state of a run is the client and the world. \<^verbatim>\<open>run_test\<close> returns \<^verbatim>\<open>None\<close>
  on every path that does not raise; what it prints is not modelled, the subscripts the
  prints evaluate are.
\<close>

definition on_cdp ::
  "(CDPClient \<Rightarrow> (py_error + 'a) \<times> CDPClient) \<Rightarrow> CDPClient \<times> world
     \<Rightarrow> (py_error + 'a) \<times> CDPClient \<times> world" where
  "on_cdp m s = (case m (fst s) of (r, c) \<Rightarrow> (r, c, snd s))"

definition on_world ::
  "(world \<Rightarrow> (py_error + 'a) \<times> world) \<Rightarrow> CDPClient \<times> world
     \<Rightarrow> (py_error + 'a) \<times> CDPClient \<times> world" where
  "on_world m s = (case m (snd s) of (r, w) \<Rightarrow> (r, fst s, w))"

definition evaluate :: "py_error + 'a \<Rightarrow> 's \<Rightarrow> (py_error + 'a) \<times> 's" where
  "evaluate r s = (r, s)"

definition time_sleep :: "int \<Rightarrow> CDPClient \<times> world \<Rightarrow> (py_error + unit) \<times> CDPClient \<times> world" where
  "time_sleep ms s = (Inr (), fst s, sleep ms (snd s))"

text \<open>Step 2, the body of the \<^verbatim>\<open>try\<close>.\<close>

definition pre_state :: "CDPClient \<times> world \<Rightarrow> (py_error + json) \<times> CDPClient \<times> world" where
  "pre_state =
     and_then (on_world get_active_tab) (\<lambda>before_tab.
     and_then (evaluate (getitem before_tab ''title'')) (\<lambda>_.
     done_with before_tab))"

text \<open>Steps 3 to 6, reached only when step 2 raised nothing.\<close>

definition act_and_verify ::
  "json \<Rightarrow> CDPClient \<times> world \<Rightarrow> (py_error + unit) \<times> CDPClient \<times> world" where
  "act_and_verify before_tab =
     and_then (on_cdp (cdp_send_key (JStr ''t'') (JStr ''t'') (JStr ''KeyT'') (JInt 84))) (\<lambda>_.
     and_then (time_sleep 500) (\<lambda>_.
     and_then (on_cdp (cdp_send_key (JStr ''ArrowDown'') JNull (JStr ''ArrowDown'') (JInt 40))) (\<lambda>_.
     and_then (time_sleep 500) (\<lambda>_.
     and_then (on_cdp (cdp_send_key (JStr ''Enter'') JNull (JStr ''Enter'') (JInt 13))) (\<lambda>_.
     and_then (time_sleep 500) (\<lambda>_.
     and_then (time_sleep 1000) (\<lambda>_.
     and_then (on_world get_active_tab) (\<lambda>after_tab.
     and_then (evaluate (getitem after_tab ''title'')) (\<lambda>_.
     and_then (evaluate (getitem before_tab ''id'')) (\<lambda>_.
     and_then (evaluate (getitem after_tab ''id'')) (\<lambda>_.
     (\<lambda>s. (Inr (), CDPClient_close (fst s), snd s)))))))))))))"

definition run_test :: "websocket \<Rightarrow> world \<Rightarrow> (py_error + unit) \<times> CDPClient \<times> world" where
  "run_test conn w =
     and_then (on_cdp (cdp_send_command ''Page.bringToFront'' JNull)) (\<lambda>_ s.
       case pre_state s of
         (Inl e, s1) \<Rightarrow> (Inr (), s1)
       | (Inr before_tab, s1) \<Rightarrow> act_and_verify before_tab s1)
     (CDPClient_init conn, w)"

section \<open>Scenarios\<close>

text \<open>
  Concrete worlds for running the model: an environment in which the extension never
  calls, an exact clock, and a source of identifiers that never repeats (\<open>u\<close>,
  \<open>uu\<close>, \<open>uuu\<close>, ...); worlds in which the extension polls and answers a query
  during a given nap; and DevTools connections that answer every request.
\<close>

definition idle :: nap where
  "idle = \<lparr>overshoot = 0, arrivals = []\<rparr>"

definition quiet_world :: world where
  "quiet_world =
     \<lparr>command_queue = [], response_dict = Map.empty, clock = 0, naps = 0,
      env = (\<lambda>n. idle), uuid_calls = 0, uuid_source = (\<lambda>n. replicate (Suc n) CHR ''u'')\<rparr>"

definition answers :: "string \<Rightarrow> json \<Rightarrow> nap" where
  "answers i result =
     \<lparr>overshoot = 0, arrivals = [GetCommand, PostResponse (JObj [(''id'', JStr i), (''result'', result)])]\<rparr>"

definition tab_A :: json where
  "tab_A = JObj [(''id'', JInt 7), (''title'', JStr ''A'')]"

definition tab_B :: json where
  "tab_B = JObj [(''id'', JInt 9), (''title'', JStr ''B'')]"

definition refusing_world :: world where
  "refusing_world =
     quiet_world\<lparr>env := (\<lambda>n. idle)
       (0 := answers ''u'' (JObj [(''success'', JBool False), (''error'', JStr ''no active tab'')]))\<rparr>"

definition answering_world :: world where
  "answering_world =
     quiet_world\<lparr>env := (\<lambda>n. idle)
       (0 := answers ''u'' (JObj [(''success'', JBool True), (''data'', tab_A)]))\<rparr>"

definition verify_fails_world :: world where
  "verify_fails_world =
     quiet_world\<lparr>env := (\<lambda>n. idle)
       (0 := answers ''u'' (JObj [(''success'', JBool True), (''data'', tab_A)]),
        5 := answers ''uu'' (JObj [(''success'', JBool False), (''error'', JStr ''no active tab'')]))\<rparr>"

definition tab_switch_world :: world where
  "tab_switch_world =
     quiet_world\<lparr>env := (\<lambda>n. idle)
       (0 := answers ''u'' (JObj [(''success'', JBool True), (''data'', tab_A)]),
        5 := answers ''uu'' (JObj [(''success'', JBool True), (''data'', tab_B)]))\<rparr>"

definition ack :: "int \<Rightarrow> wire_text" where
  "ack n = Encodes (JObj [(''id'', JInt n), (''result'', JObj [])])"

definition three_replies :: websocket where
  "three_replies =
     \<lparr>outgoing = [],
      incoming = [Encodes (JObj [(''id'', JInt 1), (''result'', JObj [])]),
                  Encodes (JObj [(''id'', JInt 2), (''result'', JObj [])]),
                  Encodes (JObj [(''id'', JInt 3), (''result'', JObj [])])],
      close_calls = 0\<rparr>"

definition eight_replies :: websocket where
  "eight_replies =
     \<lparr>outgoing = [],
      incoming = [ack 1, ack 2, ack 3, ack 4, ack 5, ack 6, ack 7, ack 8],
      close_calls = 0\<rparr>"

section \<open>Auxiliary facts\<close>

subsection \<open>The queue and the table\<close>

lemma command_obj_not_null: "command_obj i c p \<noteq> JNull"
  by (simp add: command_obj_def)

lemma run_ops_conserves:
  "JNull \<notin> set (command_queue st) \<Longrightarrow>
   claimed (fst (run_ops ops st)) @ command_queue (snd (run_ops ops st))
     = command_queue st @ enqueued ops"
proof (induction ops arbitrary: st)
  case Nil
  then show ?case by (simp add: claimed_def)
next
  case (Cons op ops)
  show ?case
  proof (cases op)
    case (Enqueue i c p)
    have "JNull \<notin> set (command_queue (enqueue (command_obj i c p) st))"
      using Cons.prems by (simp add: enqueue_def command_obj_not_null [symmetric])
    from Cons.IH [OF this] show ?thesis
      using Enqueue by (simp add: enqueue_def)
  next
    case Claim
    show ?thesis
    proof (cases "command_queue st")
      case Nil
      then have g: "get_command st = (JNull, st)" by (simp add: get_command_def)
      from Cons.IH [OF Cons.prems] show ?thesis
        using Claim g Nil by (simp add: claimed_def case_prod_beta)
    next
      case (Cons cmd rest)
      then have g: "get_command st = (cmd, st\<lparr>command_queue := rest\<rparr>)"
        by (simp add: get_command_def)
      have n: "cmd \<noteq> JNull" "JNull \<notin> set (command_queue (st\<lparr>command_queue := rest\<rparr>))"
        using Cons.prems Cons by auto
      from Cons.IH [OF n(2)] show ?thesis
        using Claim g Cons n(1) by (simp add: claimed_def case_prod_beta)
    qed
  qed
qed

lemma run_ops_response_dict:
  "response_dict (snd (run_ops ops st)) = response_dict st"
proof (induction ops arbitrary: st)
  case Nil
  show ?case by simp
next
  case (Cons op ops)
  show ?case
  proof (cases op)
    case (Enqueue i c p)
    then show ?thesis using Cons.IH [of "enqueue (command_obj i c p) st"]
      by (simp add: enqueue_def)
  next
    case Claim
    then show ?thesis using Cons.IH [of "snd (get_command st)"]
      by (simp add: case_prod_beta get_command_def split: list.splits)
  qed
qed

lemma post_response_wellformed:
  "map_of body ''id'' = Some i \<Longrightarrow> map_of body ''result'' = Some r \<Longrightarrow> as_key i = Some k \<Longrightarrow>
   post_response (JObj body) st =
     (Inr (JObj [(''status'', JStr ''ok'')]), st\<lparr>response_dict := (response_dict st)(k \<mapsto> r)\<rparr>)"
  by (simp add: post_response_def)

subsection \<open>The DevTools client\<close>

lemma cdp_send_command_sends:
  "cmd_id (snd (cdp_send_command method params c)) = cmd_id c + 1 \<and>
   outgoing (ws (snd (cdp_send_command method params c)))
     = outgoing (ws c) @ [request_obj (cmd_id c + 1) method params] \<and>
   close_calls (ws (snd (cdp_send_command method params c))) = close_calls (ws c)"
  by (simp add: cdp_send_command_def Let_def ws_send_def ws_recv_def split: list.splits)

lemma cdp_send_command_reply:
  "incoming (ws c) = Encodes reply # rest \<Longrightarrow>
   cdp_send_command method params c =
     (Inr reply,
      \<lparr>ws = \<lparr>outgoing = outgoing (ws c) @ [request_obj (cmd_id c + 1) method params],
              incoming = rest, close_calls = close_calls (ws c)\<rparr>,
       cmd_id = cmd_id c + 1\<rparr>)"
  by (simp add: cdp_send_command_def Let_def ws_send_def ws_recv_def)

lemma truthy_key_params: "truthy (key_params ev key_name code key_code)"
  by (simp add: key_params_def)

lemma truthy_char_params: "truthy (char_params text key_name)"
  by (simp add: char_params_def)

lemma request_obj_key_command:
  "truthy p \<Longrightarrow> request_obj n ''Input.dispatchKeyEvent'' p = key_command n p"
  by (simp add: request_obj_def key_command_def or_empty_def)

lemma cdp_send_key_three:
  assumes "truthy text" "incoming (ws c) = Encodes r1 # Encodes r2 # Encodes r3 # rest"
  shows "cdp_send_key key_name text code key_code c =
     (Inr (),
      \<lparr>ws = \<lparr>outgoing = outgoing (ws c) @
                 [key_command (cmd_id c + 1) (key_params ''keyDown'' key_name code key_code),
                  key_command (cmd_id c + 2) (char_params text key_name),
                  key_command (cmd_id c + 3) (key_params ''keyUp'' key_name code key_code)],
              incoming = rest, close_calls = close_calls (ws c)\<rparr>,
       cmd_id = cmd_id c + 3\<rparr>)"
  using assms
  by (simp add: cdp_send_key_def and_then_def done_with_def cdp_send_command_reply
        request_obj_key_command truthy_key_params truthy_char_params add.commute)

lemma cdp_send_key_two:
  assumes "\<not> truthy text" "incoming (ws c) = Encodes r1 # Encodes r2 # rest"
  shows "cdp_send_key key_name text code key_code c =
     (Inr (),
      \<lparr>ws = \<lparr>outgoing = outgoing (ws c) @
                 [key_command (cmd_id c + 1) (key_params ''keyDown'' key_name code key_code),
                  key_command (cmd_id c + 2) (key_params ''keyUp'' key_name code key_code)],
              incoming = rest, close_calls = close_calls (ws c)\<rparr>,
       cmd_id = cmd_id c + 2\<rparr>)"
  using assms
  by (simp add: cdp_send_key_def and_then_def done_with_def cdp_send_command_reply
        request_obj_key_command truthy_key_params truthy_char_params add.commute)

lemma send_and_drop_reply:
  "incoming s = t # rest \<Longrightarrow>
   send_and_drop command s = (Inr (), s\<lparr>outgoing := outgoing s @ [command], incoming := rest\<rparr>)"
  by (simp add: send_and_drop_def ws_send_def ws_recv_def)

lemma send_key_three:
  assumes "truthy text" "incoming s = t1 # t2 # t3 # rest"
  shows "send_key key_name text code key_code n s =
     (Inr (),
      s\<lparr>outgoing := outgoing s @
                 [key_command n (key_params ''keyDown'' key_name code key_code),
                  key_command (n + 1) (char_params text key_name),
                  key_command (n + 2) (key_params ''keyUp'' key_name code key_code)],
        incoming := rest\<rparr>)"
  using assms
  by (simp add: send_key_def and_then_def done_with_def send_and_drop_reply)

lemma send_key_two:
  assumes "\<not> truthy text" "incoming s = t1 # t2 # rest"
  shows "send_key key_name text code key_code n s =
     (Inr (),
      s\<lparr>outgoing := outgoing s @
                 [key_command n (key_params ''keyDown'' key_name code key_code),
                  key_command (n + 2) (key_params ''keyUp'' key_name code key_code)],
        incoming := rest\<rparr>)"
  using assms
  by (simp add: send_key_def and_then_def done_with_def send_and_drop_reply)

lemma key_params_fields:
  "getitem (key_params ev key_name code key_code) ''type'' = Inr (JStr ev) \<and>
   getitem (key_params ev key_name code key_code) ''key'' = Inr key_name \<and>
   getitem (key_params ev key_name code key_code) ''code''
     = (if truthy code then Inr code else Inl (KeyError ''code'')) \<and>
   getitem (key_params ev key_name code key_code) ''windowsVirtualKeyCode''
     = (if truthy key_code then Inr key_code else Inl (KeyError ''windowsVirtualKeyCode'')) \<and>
   getitem (key_params ev key_name code key_code) ''nativeVirtualKeyCode''
     = (if truthy key_code then Inr key_code else Inl (KeyError ''nativeVirtualKeyCode''))"
  by (simp add: key_params_def)

lemma char_params_fields:
  "getitem (char_params text key_name) ''type'' = Inr (JStr ''char'') \<and>
   getitem (char_params text key_name) ''key'' = Inr key_name \<and>
   getitem (char_params text key_name) ''text'' = Inr text \<and>
   getitem (char_params text key_name) ''code'' = Inl (KeyError ''code'') \<and>
   getitem (char_params text key_name) ''windowsVirtualKeyCode''
     = Inl (KeyError ''windowsVirtualKeyCode'') \<and>
   getitem (char_params text key_name) ''nativeVirtualKeyCode''
     = Inl (KeyError ''nativeVirtualKeyCode'')"
  by (simp add: char_params_def)

subsection \<open>Sleeping and the wait loop\<close>

lemma handle_frame:
  fixes w :: world
  shows "clock (handle req w) = clock w \<and> naps (handle req w) = naps w \<and>
         env (handle req w) = env w \<and> uuid_calls (handle req w) = uuid_calls w \<and>
         uuid_source (handle req w) = uuid_source w"
  by (cases req)
     (simp_all add: get_command_def post_response_def split: list.splits sum.splits option.splits)

lemma fold_handle_frame:
  fixes w :: world
  shows "clock (fold handle reqs w) = clock w \<and> naps (fold handle reqs w) = naps w \<and>
         env (fold handle reqs w) = env w \<and> uuid_calls (fold handle reqs w) = uuid_calls w \<and>
         uuid_source (fold handle reqs w) = uuid_source w"
  by (induction reqs arbitrary: w) (simp_all add: handle_frame)

lemma sleep_frame:
  "clock (sleep ms w) = clock w + ms + int (overshoot (env w (naps w))) \<and>
   naps (sleep ms w) = Suc (naps w) \<and> env (sleep ms w) = env w \<and>
   uuid_calls (sleep ms w) = uuid_calls w \<and> uuid_source (sleep ms w) = uuid_source w"
  by (simp add: sleep_def Let_def fold_handle_frame)

lemma sleeps_frame:
  "naps ((sleep ms ^^ m) w) = naps w + m \<and> env ((sleep ms ^^ m) w) = env w \<and>
   uuid_calls ((sleep ms ^^ m) w) = uuid_calls w \<and>
   uuid_source ((sleep ms ^^ m) w) = uuid_source w"
  by (induction m) (simp_all add: sleep_frame)

lemma enqueue_frame:
  fixes w :: world
  shows "response_dict (enqueue c w) = response_dict w \<and> clock (enqueue c w) = clock w \<and>
    naps (enqueue c w) = naps w \<and> env (enqueue c w) = env w \<and>
    uuid_calls (enqueue c w) = uuid_calls w \<and> uuid_source (enqueue c w) = uuid_source w"
  by (simp add: enqueue_def)

lemma post_response_other_key:
  "getitem data ''id'' \<noteq> Inr (JStr s) \<Longrightarrow>
   response_dict (snd (post_response data st)) (KStr s) = response_dict st (KStr s)"
proof -
  assume a: "getitem data ''id'' \<noteq> Inr (JStr s)"
  have "as_key i = Some (KStr s) \<Longrightarrow> i = JStr s" for i
    by (cases i) auto
  with a show ?thesis
    by (auto simp: post_response_def split: sum.splits option.splits)
qed

lemma handle_other_key:
  "(\<forall>data. req = PostResponse data \<longrightarrow> getitem data ''id'' \<noteq> Inr (JStr s)) \<Longrightarrow>
   response_dict (handle req st) (KStr s) = response_dict st (KStr s)"
  by (cases req) (simp_all add: post_response_other_key get_command_def split: list.splits)

lemma fold_handle_other_key:
  "(\<forall>data. PostResponse data \<in> set reqs \<longrightarrow> getitem data ''id'' \<noteq> Inr (JStr s)) \<Longrightarrow>
   response_dict (fold handle reqs st) (KStr s) = response_dict st (KStr s)"
  by (induction reqs arbitrary: st) (simp_all add: handle_other_key)

lemma sleep_other_key:
  "(\<forall>data. PostResponse data \<in> set (arrivals (env w (naps w))) \<longrightarrow>
      getitem data ''id'' \<noteq> Inr (JStr s)) \<Longrightarrow>
   response_dict (sleep ms w) (KStr s) = response_dict w (KStr s)"
  by (simp add: sleep_def Let_def fold_handle_other_key)

lemma sleeps_other_key:
  "(\<forall>n data. PostResponse data \<in> set (arrivals (env w n)) \<longrightarrow>
      getitem data ''id'' \<noteq> Inr (JStr s)) \<Longrightarrow>
   response_dict ((sleep ms ^^ m) w) (KStr s) = response_dict w (KStr s)"
proof (induction m)
  case 0
  show ?case by simp
next
  case (Suc m)
  have "response_dict (sleep ms ((sleep ms ^^ m) w)) (KStr s)
          = response_dict ((sleep ms ^^ m) w) (KStr s)"
    by (rule sleep_other_key) (simp add: sleeps_frame Suc.prems)
  with Suc show ?case by simp
qed

lemma wait_times_out:
  "(\<forall>m. response_dict ((sleep 100 ^^ m) w) (KStr i) = None) \<Longrightarrow>
   \<exists>m. send_command_wait i command start timeout w =
          (Inl (TimeoutError (''Extension did not respond to '' @ command)), (sleep 100 ^^ m) w) \<and>
       timeout < clock ((sleep 100 ^^ m) w) - start \<and>
       (\<forall>j<m. clock ((sleep 100 ^^ j) w) - start \<le> timeout)"
proof (induction i command start timeout w rule: send_command_wait.induct)
  case (1 i command start timeout w)
  have none: "response_dict w (KStr i) = None"
    using "1.prems" [rule_format, of 0] by simp
  show ?case
  proof (cases "clock w - start > timeout")
    case True
    have "send_command_wait i command start timeout w =
          (Inl (TimeoutError (''Extension did not respond to '' @ command)), (sleep 100 ^^ 0) w)"
      using none True by simp
    moreover have "timeout < clock ((sleep 100 ^^ 0) w) - start" using True by simp
    ultimately show ?thesis by blast
  next
    case False
    have later: "\<forall>m. response_dict ((sleep 100 ^^ m) (sleep 100 w)) (KStr i) = None"
      using "1.prems" [rule_format, of "Suc _"] by (simp add: funpow_swap1)
    from "1.IH" [OF none False later]
    obtain m where m:
      "send_command_wait i command start timeout (sleep 100 w) =
          (Inl (TimeoutError (''Extension did not respond to '' @ command)),
           (sleep 100 ^^ m) (sleep 100 w))"
      "timeout < clock ((sleep 100 ^^ m) (sleep 100 w)) - start"
      "\<forall>j<m. clock ((sleep 100 ^^ j) (sleep 100 w)) - start \<le> timeout"
      by blast
    have "send_command_wait i command start timeout w =
          (Inl (TimeoutError (''Extension did not respond to '' @ command)), (sleep 100 ^^ Suc m) w)"
      using none False m(1) by (simp add: funpow_swap1)
    moreover have "timeout < clock ((sleep 100 ^^ Suc m) w) - start"
      using m(2) by (simp add: funpow_swap1)
    moreover have "\<forall>j<Suc m. clock ((sleep 100 ^^ j) w) - start \<le> timeout"
    proof (intro allI impI)
      fix j assume "j < Suc m"
      show "clock ((sleep 100 ^^ j) w) - start \<le> timeout"
      proof (cases j)
        case 0
        then show ?thesis using False by simp
      next
        case (Suc j')
        then have "j' < m" using \<open>j < Suc m\<close> by simp
        with m(3) have "clock ((sleep 100 ^^ j') (sleep 100 w)) - start \<le> timeout" by blast
        then show ?thesis using Suc by (simp add: funpow_swap1)
      qed
    qed
    ultimately show ?thesis by blast
  qed
qed

lemma wait_returns:
  "send_command_wait i command start timeout w = (Inr r, w') \<Longrightarrow>
   \<exists>m. response_dict ((sleep 100 ^^ m) w) (KStr i) = Some r \<and>
       w' = ((sleep 100 ^^ m) w)
              \<lparr>response_dict := (response_dict ((sleep 100 ^^ m) w))(KStr i := None)\<rparr>"
proof (induction i command start timeout w rule: send_command_wait.induct)
  case (1 i command start timeout w)
  show ?case
  proof (cases "response_dict w (KStr i)")
    case (Some r0)
    with "1.prems" have "r0 = r" "w' = w\<lparr>response_dict := (response_dict w)(KStr i := None)\<rparr>"
      by simp_all
    with Some have "response_dict ((sleep 100 ^^ 0) w) (KStr i) = Some r \<and>
       w' = ((sleep 100 ^^ 0) w)
              \<lparr>response_dict := (response_dict ((sleep 100 ^^ 0) w))(KStr i := None)\<rparr>"
      by simp
    then show ?thesis by blast
  next
    case None
    show ?thesis
    proof (cases "clock w - start > timeout")
      case True
      with None "1.prems" show ?thesis by simp
    next
      case False
      with None "1.prems"
      have "send_command_wait i command start timeout (sleep 100 w) = (Inr r, w')" by simp
      from "1.IH" [OF None False this]
      obtain m where "response_dict ((sleep 100 ^^ m) (sleep 100 w)) (KStr i) = Some r \<and>
         w' = ((sleep 100 ^^ m) (sleep 100 w))
              \<lparr>response_dict := (response_dict ((sleep 100 ^^ m) (sleep 100 w)))(KStr i := None)\<rparr>"
        by blast
      then have "response_dict ((sleep 100 ^^ Suc m) w) (KStr i) = Some r \<and>
         w' = ((sleep 100 ^^ Suc m) w)
              \<lparr>response_dict := (response_dict ((sleep 100 ^^ Suc m) w))(KStr i := None)\<rparr>"
        by (simp add: funpow_swap1)
      then show ?thesis by blast
    qed
  qed
qed

lemma wait_raises:
  "send_command_wait i command start timeout w = (Inl e, w') \<Longrightarrow>
   e = TimeoutError (''Extension did not respond to '' @ command) \<and> (\<exists>m. w' = (sleep 100 ^^ m) w)"
proof (induction i command start timeout w rule: send_command_wait.induct)
  case (1 i command start timeout w)
  show ?case
  proof (cases "response_dict w (KStr i)")
    case (Some r0)
    with "1.prems" show ?thesis by simp
  next
    case None
    show ?thesis
    proof (cases "clock w - start > timeout")
      case True
      with None "1.prems" have "e = TimeoutError (''Extension did not respond to '' @ command)"
        "w' = (sleep 100 ^^ 0) w" by simp_all
      then show ?thesis by blast
    next
      case False
      with None "1.prems"
      have "send_command_wait i command start timeout (sleep 100 w) = (Inl e, w')" by simp
      from "1.IH" [OF None False this]
      obtain m where "e = TimeoutError (''Extension did not respond to '' @ command)"
        "w' = (sleep 100 ^^ m) (sleep 100 w)" by blast
      then have "e = TimeoutError (''Extension did not respond to '' @ command)"
        "w' = (sleep 100 ^^ Suc m) w" by (simp_all add: funpow_swap1)
      then show ?thesis by blast
    qed
  qed
qed

lemma bridge_send_command_unfold:
  "bridge_send_command command params timeout w =
     send_command_wait (uuid_source w (uuid_calls w)) command (clock w) timeout
       (enqueue (command_obj (uuid_source w (uuid_calls w)) command params)
          (w\<lparr>uuid_calls := Suc (uuid_calls w)\<rparr>))"
  by (simp add: bridge_send_command_def uuid4_str_def Let_def enqueue_def
        del: send_command_wait.simps)

lemma bridge_send_command_draws_once:
  "uuid_calls (snd (bridge_send_command command params timeout w)) = Suc (uuid_calls w) \<and>
   uuid_source (snd (bridge_send_command command params timeout w)) = uuid_source w"
proof -
  define w2 where "w2 = enqueue (command_obj (uuid_source w (uuid_calls w)) command params)
          (w\<lparr>uuid_calls := Suc (uuid_calls w)\<rparr>)"
  have fr: "uuid_calls w2 = Suc (uuid_calls w)" "uuid_source w2 = uuid_source w"
    by (simp_all add: w2_def enqueue_def)
  obtain r w' where run:
    "send_command_wait (uuid_source w (uuid_calls w)) command (clock w) timeout w2 = (r, w')"
    by (cases "send_command_wait (uuid_source w (uuid_calls w)) command (clock w) timeout w2")
  have "uuid_calls w' = Suc (uuid_calls w) \<and> uuid_source w' = uuid_source w"
  proof (cases r)
    case (Inl e)
    with run wait_raises obtain m where "w' = (sleep 100 ^^ m) w2" by blast
    then show ?thesis by (simp add: sleeps_frame fr)
  next
    case (Inr v)
    with run wait_returns obtain m where
      "w' = ((sleep 100 ^^ m) w2)
              \<lparr>response_dict := (response_dict ((sleep 100 ^^ m) w2))
                 (KStr (uuid_source w (uuid_calls w)) := None)\<rparr>" by blast
    then show ?thesis by (simp add: sleeps_frame fr)
  qed
  with run show ?thesis
    by (simp add: bridge_send_command_unfold w2_def del: send_command_wait.simps)
qed

lemma queue_command_unfold:
  "queue_command command params w =
     enqueue (command_obj (uuid_source w (uuid_calls w)) command params)
       (w\<lparr>uuid_calls := Suc (uuid_calls w)\<rparr>)"
  by (simp add: queue_command_def uuid4_str_def)

lemma appended_one:
  "appended command params w = [command_obj (uuid_source w (uuid_calls w)) command params]"
  by (simp add: appended_def queue_command_unfold enqueue_def)

lemma command_obj_id: "getitem (command_obj i command params) ''id'' = Inr (JStr i)"
  by (simp add: command_obj_def)

lemma bridge_send_command_queues_then_waits:
  "bridge_send_command command params timeout w =
     send_command_wait (fst (uuid4_str w)) command (clock w) timeout
       (queue_command command params w)"
  by (simp add: bridge_send_command_unfold queue_command_unfold uuid4_str_def
        del: send_command_wait.simps)

lemma issued_ids_are_draws:
  "issued_ids calls w =
     map (\<lambda>n. Inr (JStr (uuid_source w n))) [uuid_calls w ..< uuid_calls w + length calls]"
proof (induction calls arbitrary: w)
  case Nil
  show ?case by simp
next
  case (Cons call calls)
  obtain command params timeout where call: "call = (command, params, timeout)"
    by (cases call)
  have "issued_ids (call # calls) w =
      Inr (JStr (uuid_source w (uuid_calls w))) #
      issued_ids calls (snd (bridge_send_command command params timeout w))"
    by (simp add: call appended_one command_obj_id)
  also have "issued_ids calls (snd (bridge_send_command command params timeout w)) =
      map (\<lambda>n. Inr (JStr (uuid_source w n)))
        [Suc (uuid_calls w) ..< Suc (uuid_calls w) + length calls]"
    by (simp add: Cons.IH bridge_send_command_draws_once)
  finally have ids: "issued_ids (call # calls) w =
      Inr (JStr (uuid_source w (uuid_calls w))) #
      map (\<lambda>n. Inr (JStr (uuid_source w n)))
        [Suc (uuid_calls w) ..< Suc (uuid_calls w) + length calls]" .
  have lt: "uuid_calls w < uuid_calls w + length (call # calls)" by simp
  have e: "uuid_calls w + length (call # calls) = Suc (uuid_calls w) + length calls" by simp
  have "[uuid_calls w ..< uuid_calls w + length (call # calls)] =
      uuid_calls w # [Suc (uuid_calls w) ..< Suc (uuid_calls w) + length calls]"
    using upt_conv_Cons [OF lt] by (simp only: e)
  with ids show ?case by (simp only: list.map)
qed

lemma decode_response_cases:
  "(map_of kvs ''success'' = Some (JBool True) \<and> map_of kvs ''data'' = Some d \<longrightarrow>
      decode_response (JObj kvs) = Inr d) \<and>
   (map_of kvs ''success'' = Some (JBool False) \<and> map_of kvs ''error'' = Some e \<longrightarrow>
      decode_response (JObj kvs) = Inl (Exception e))"
  by (simp add: decode_response_def)

lemma answering_run:
  "bridge_send_command ''get_active_tab'' JNull 5000 answering_world =
     (Inr (JObj [(''success'', JBool True), (''data'', tab_A)]),
      answering_world\<lparr>uuid_calls := 1, clock := 100, naps := 1\<rparr>)"
  by (simp add: bridge_send_command_def uuid4_str_def enqueue_def answering_world_def
        quiet_world_def idle_def answers_def sleep_def Let_def get_command_def
        post_response_def command_obj_def or_empty_def)

lemma refusing_run:
  "bridge_send_command ''get_active_tab'' JNull 5000 refusing_world =
     (Inr (JObj [(''success'', JBool False), (''error'', JStr ''no active tab'')]),
      refusing_world\<lparr>uuid_calls := 1, clock := 100, naps := 1\<rparr>)"
  by (simp add: bridge_send_command_def uuid4_str_def enqueue_def refusing_world_def
        quiet_world_def idle_def answers_def sleep_def Let_def get_command_def
        post_response_def command_obj_def or_empty_def)

subsection \<open>Three runs of the test\<close>

lemma baseline_failure_run:
  "fst (run_test eight_replies refusing_world) = Inr () \<and>
   close_calls (ws (fst (snd (run_test eight_replies refusing_world)))) = 0"
  by code_simp

lemma verify_failure_run:
  "fst (run_test eight_replies verify_fails_world) = Inl (Exception (JStr ''no active tab'')) \<and>
   close_calls (ws (fst (snd (run_test eight_replies verify_fails_world)))) = 0"
  by code_simp

lemma passing_run:
  "fst (run_test eight_replies tab_switch_world) = Inr () \<and>
   close_calls (ws (fst (snd (run_test eight_replies tab_switch_world)))) = 1"
  by code_simp

section \<open>Properties\<close>

subsection \<open>The test and its connection\<close>

text \<open>
  C1. The claim: on every exit path of a run the DevTools connection is closed exactly
  once, also when the Baseline or the Verify query fails. \<^verbatim>\<open>run_test\<close> calls
  \<^verbatim>\<open>cdp.close()\<close> only as its last statement: the \<^verbatim>\<open>return\<close> of the
  \<^verbatim>\<open>except\<close> branch of step 2 and an exception of step 4 both leave without it.
  When the extension refuses the Baseline query the run returns with no call of
  \<^verbatim>\<open>close\<close>; when it refuses the Verify query the exception leaves \<^verbatim>\<open>run_test\<close>
  with no call of \<^verbatim>\<open>close\<close>; only the run that reaches step 6 closes, once.
\<close>

theorem run_test_leaves_connection_open:
  "fst (run_test eight_replies refusing_world) = Inr () \<and>
   close_calls (ws (fst (snd (run_test eight_replies refusing_world)))) = 0 \<and>
   fst (run_test eight_replies verify_fails_world) = Inl (Exception (JStr ''no active tab'')) \<and>
   close_calls (ws (fst (snd (run_test eight_replies verify_fails_world)))) = 0 \<and>
   fst (run_test eight_replies tab_switch_world) = Inr () \<and>
   close_calls (ws (fst (snd (run_test eight_replies tab_switch_world)))) = 1"
  using baseline_failure_run verify_failure_run passing_run by blast

subsection \<open>The DevTools client\<close>

text \<open>
  C2, as amended. Every call of \<^verbatim>\<open>CDPClient.send_command\<close> increments the
  connection's counter by one and sends one request carrying the new value as its id.
  It then reads the next message of the connection, whatever id it bears, and returns
  the whole decoded message (not its \<^verbatim>\<open>result\<close> member): no id is compared.
\<close>

theorem cdp_send_command_returns_next_frame:
  "cmd_id (snd (cdp_send_command mth params c)) = cmd_id c + 1 \<and>
   outgoing (ws (snd (cdp_send_command mth params c)))
     = outgoing (ws c) @ [request_obj (cmd_id c + 1) mth params] \<and>
   (\<forall>reply rest. incoming (ws c) = Encodes reply # rest \<longrightarrow>
      cdp_send_command mth params c =
        (Inr reply,
         \<lparr>ws = \<lparr>outgoing = outgoing (ws c) @ [request_obj (cmd_id c + 1) mth params],
                 incoming = rest, close_calls = close_calls (ws c)\<rparr>,
          cmd_id = cmd_id c + 1\<rparr>))"
  using cdp_send_command_sends [of mth params c] cdp_send_command_reply [of c _ _ mth params]
  by blast

theorem cdp_send_command_returns_next_frame_witness:
  "cdp_send_command ''Page.bringToFront'' JNull
     (CDPClient_init \<lparr>outgoing = [], incoming = [Encodes (JObj [(''id'', JInt 1), (''result'', JObj [])])],
        close_calls = 0\<rparr>)
   = (Inr (JObj [(''id'', JInt 1), (''result'', JObj [])]),
      \<lparr>ws = \<lparr>outgoing = [JObj [(''id'', JInt 1), (''method'', JStr ''Page.bringToFront''),
                               (''params'', JObj [])]],
              incoming = [], close_calls = 0\<rparr>,
       cmd_id = 1\<rparr>)"
  using cdp_send_command_returns_next_frame [where mth = "''Page.bringToFront''" and params = JNull
      and c = "CDPClient_init \<lparr>outgoing = [], incoming = [Encodes (JObj [(''id'', JInt 1), (''result'', JObj [])])],
        close_calls = 0\<rparr>"]
  by (simp add: CDPClient_init_def request_obj_def or_empty_def)

text \<open>
  C2 as stated (the call waits for the reply bearing its own id and returns that
  reply's result payload) fails: with a stale reply of id 7 ahead of the reply of id 1,
  the call that sent id 1 returns the stale message whole and leaves its own reply unread.
\<close>

theorem cdp_send_command_unmatched_reply:
  "cdp_send_command ''Page.bringToFront'' JNull
     (CDPClient_init
        \<lparr>outgoing = [],
         incoming = [Encodes (JObj [(''id'', JInt 7), (''result'', JStr ''stale'')]),
                     Encodes (JObj [(''id'', JInt 1), (''result'', JStr ''fresh'')])],
         close_calls = 0\<rparr>)
   = (Inr (JObj [(''id'', JInt 7), (''result'', JStr ''stale'')]),
      \<lparr>ws = \<lparr>outgoing = [JObj [(''id'', JInt 1), (''method'', JStr ''Page.bringToFront''),
                               (''params'', JObj [])]],
              incoming = [Encodes (JObj [(''id'', JInt 1), (''result'', JStr ''fresh'')])],
              close_calls = 0\<rparr>,
       cmd_id = 1\<rparr>)"
  by (simp add: cdp_send_command_def CDPClient_init_def Let_def ws_send_def ws_recv_def
        request_obj_def or_empty_def)

text \<open>
  C3, as amended. Given that every request is answered, \<^verbatim>\<open>send_key\<close> (both the
  method of \<^verbatim>\<open>CDPClient\<close> and the function of cdp-send-sequence.py) sends exactly
  keyDown, char, keyUp in this order when the literal text is true in Python's sense
  (not \<^verbatim>\<open>None\<close>, not empty), and exactly keyDown, keyUp otherwise. Every event
  carries the key name. keyDown and keyUp carry the physical code and both virtual key
  code fields when these arguments are true in Python's sense; the char event carries
  the key name and the text only, never the code or the key codes.
\<close>

theorem send_key_events:
  "(truthy literal \<and> incoming (ws c) = Encodes ra # Encodes rb # Encodes rc # rest \<longrightarrow>
      fst (cdp_send_key key_name literal code key_code c) = Inr () \<and>
      outgoing (ws (snd (cdp_send_key key_name literal code key_code c))) =
        outgoing (ws c) @
          [key_command (cmd_id c + 1) (key_params ''keyDown'' key_name code key_code),
           key_command (cmd_id c + 2) (char_params literal key_name),
           key_command (cmd_id c + 3) (key_params ''keyUp'' key_name code key_code)]) \<and>
   (\<not> truthy literal \<and> incoming (ws c) = Encodes ra # Encodes rb # rest \<longrightarrow>
      fst (cdp_send_key key_name literal code key_code c) = Inr () \<and>
      outgoing (ws (snd (cdp_send_key key_name literal code key_code c))) =
        outgoing (ws c) @
          [key_command (cmd_id c + 1) (key_params ''keyDown'' key_name code key_code),
           key_command (cmd_id c + 2) (key_params ''keyUp'' key_name code key_code)]) \<and>
   (truthy literal \<and> incoming s = ta # tb # tc # rest \<longrightarrow>
      fst (send_key key_name literal code key_code n s) = Inr () \<and>
      outgoing (snd (send_key key_name literal code key_code n s)) =
        outgoing s @
          [key_command n (key_params ''keyDown'' key_name code key_code),
           key_command (n + 1) (char_params literal key_name),
           key_command (n + 2) (key_params ''keyUp'' key_name code key_code)]) \<and>
   (\<not> truthy literal \<and> incoming s = ta # tb # rest \<longrightarrow>
      fst (send_key key_name literal code key_code n s) = Inr () \<and>
      outgoing (snd (send_key key_name literal code key_code n s)) =
        outgoing s @
          [key_command n (key_params ''keyDown'' key_name code key_code),
           key_command (n + 2) (key_params ''keyUp'' key_name code key_code)]) \<and>
   (\<forall>ev. getitem (key_params ev key_name code key_code) ''key'' = Inr key_name \<and>
      getitem (key_params ev key_name code key_code) ''code''
        = (if truthy code then Inr code else Inl (KeyError ''code'')) \<and>
      getitem (key_params ev key_name code key_code) ''windowsVirtualKeyCode''
        = (if truthy key_code then Inr key_code else Inl (KeyError ''windowsVirtualKeyCode'')) \<and>
      getitem (key_params ev key_name code key_code) ''nativeVirtualKeyCode''
        = (if truthy key_code then Inr key_code else Inl (KeyError ''nativeVirtualKeyCode''))) \<and>
   getitem (char_params literal key_name) ''key'' = Inr key_name \<and>
   getitem (char_params literal key_name) ''text'' = Inr literal \<and>
   getitem (char_params literal key_name) ''code'' = Inl (KeyError ''code'') \<and>
   getitem (char_params literal key_name) ''windowsVirtualKeyCode''
     = Inl (KeyError ''windowsVirtualKeyCode'') \<and>
   getitem (char_params literal key_name) ''nativeVirtualKeyCode''
     = Inl (KeyError ''nativeVirtualKeyCode'')"
  by (simp add: cdp_send_key_three cdp_send_key_two send_key_three send_key_two
        key_params_fields char_params_fields)

theorem send_key_events_witness:
  "outgoing (ws (snd (cdp_send_key (JStr ''t'') (JStr ''t'') (JStr ''KeyT'') (JInt 84)
                        (CDPClient_init three_replies)))) =
     [JObj [(''id'', JInt 1), (''method'', JStr ''Input.dispatchKeyEvent''),
            (''params'', JObj [(''type'', JStr ''keyDown''), (''key'', JStr ''t''),
                               (''code'', JStr ''KeyT''), (''windowsVirtualKeyCode'', JInt 84),
                               (''nativeVirtualKeyCode'', JInt 84)])],
      JObj [(''id'', JInt 2), (''method'', JStr ''Input.dispatchKeyEvent''),
            (''params'', JObj [(''type'', JStr ''char''), (''text'', JStr ''t''),
                               (''key'', JStr ''t'')])],
      JObj [(''id'', JInt 3), (''method'', JStr ''Input.dispatchKeyEvent''),
            (''params'', JObj [(''type'', JStr ''keyUp''), (''key'', JStr ''t''),
                               (''code'', JStr ''KeyT''), (''windowsVirtualKeyCode'', JInt 84),
                               (''nativeVirtualKeyCode'', JInt 84)])]] \<and>
   outgoing (snd (send_key (JStr ''Enter'') JNull (JStr ''Enter'') (JInt 13) 30 three_replies)) =
     [JObj [(''id'', JInt 30), (''method'', JStr ''Input.dispatchKeyEvent''),
            (''params'', JObj [(''type'', JStr ''keyDown''), (''key'', JStr ''Enter''),
                               (''code'', JStr ''Enter''), (''windowsVirtualKeyCode'', JInt 13),
                               (''nativeVirtualKeyCode'', JInt 13)])],
      JObj [(''id'', JInt 32), (''method'', JStr ''Input.dispatchKeyEvent''),
            (''params'', JObj [(''type'', JStr ''keyUp''), (''key'', JStr ''Enter''),
                               (''code'', JStr ''Enter''), (''windowsVirtualKeyCode'', JInt 13),
                               (''nativeVirtualKeyCode'', JInt 13)])]]"
  using send_key_events [where literal = "JStr ''t''" and key_name = "JStr ''t''"
          and code = "JStr ''KeyT''" and key_code = "JInt 84"
          and c = "CDPClient_init three_replies"
          and ra = "JObj [(''id'', JInt 1), (''result'', JObj [])]"
          and rb = "JObj [(''id'', JInt 2), (''result'', JObj [])]"
          and rc = "JObj [(''id'', JInt 3), (''result'', JObj [])]" and rest = "[]"]
        send_key_events [where literal = JNull and key_name = "JStr ''Enter''"
          and code = "JStr ''Enter''" and key_code = "JInt 13" and n = 30
          and s = three_replies
          and ta = "Encodes (JObj [(''id'', JInt 1), (''result'', JObj [])])"
          and tb = "Encodes (JObj [(''id'', JInt 2), (''result'', JObj [])])"
          and rest = "[Encodes (JObj [(''id'', JInt 3), (''result'', JObj [])])]"]
  by (simp add: CDPClient_init_def three_replies_def key_command_def key_params_def char_params_def)

text \<open>
  C3 as stated (every sub-event carries the code and the legacy key code the
  intent supplies) fails for the char event of \<^verbatim>\<open>send_key("t", text="t", code="KeyT",
  key_code=84)\<close>: the second request sent has neither.
\<close>

theorem char_event_lacks_code:
  "outgoing (ws (snd (cdp_send_key (JStr ''t'') (JStr ''t'') (JStr ''KeyT'') (JInt 84)
                        (CDPClient_init three_replies)))) ! 1 =
     JObj [(''id'', JInt 2), (''method'', JStr ''Input.dispatchKeyEvent''),
           (''params'', JObj [(''type'', JStr ''char''), (''text'', JStr ''t''),
                              (''key'', JStr ''t'')])]"
  by (simp add: cdp_send_key_def and_then_def done_with_def cdp_send_command_def Let_def
        ws_send_def ws_recv_def CDPClient_init_def three_replies_def request_obj_def
        or_empty_def key_params_def char_params_def)

subsection \<open>The bridge\<close>

text \<open>
  C4. A call of \<^verbatim>\<open>send_command\<close> with a timeout \<open>T \<ge> 0\<close> whose identifier is not
  in the table and is never posted raises \<^verbatim>\<open>TimeoutError\<close> with a message naming
  the command. The elapsed time at the raise is more than \<open>T\<close> and at most \<open>T\<close> plus
  one polling interval of 100 ms plus the largest overshoot of a sleep. The call appended
  its command once: the final world is the world after the one append, followed by the
  naps of the wait, during which only the environment acts.
\<close>

theorem send_command_times_out:
  assumes T: "0 \<le> timeout"
    and absent: "response_dict w (KStr (uuid_source w (uuid_calls w))) = None"
    and never: "\<forall>n data. PostResponse data \<in> set (arrivals (env w n)) \<longrightarrow>
                  getitem data ''id'' \<noteq> Inr (JStr (uuid_source w (uuid_calls w)))"
  shows "\<exists>m. bridge_send_command command params timeout w =
            (Inl (TimeoutError (''Extension did not respond to '' @ command)),
             (sleep 100 ^^ m)
               (enqueue (command_obj (uuid_source w (uuid_calls w)) command params)
                  (w\<lparr>uuid_calls := Suc (uuid_calls w)\<rparr>))) \<and>
          timeout < clock (snd (bridge_send_command command params timeout w)) - clock w \<and>
          (\<forall>d. (\<forall>n. overshoot (env w n) \<le> d) \<longrightarrow>
             clock (snd (bridge_send_command command params timeout w)) - clock w
               \<le> timeout + 100 + int d)"
proof -
  define i where "i = uuid_source w (uuid_calls w)"
  define w2 where "w2 = enqueue (command_obj i command params) (w\<lparr>uuid_calls := Suc (uuid_calls w)\<rparr>)"
  have fr: "response_dict w2 = response_dict w" "clock w2 = clock w" "env w2 = env w"
    by (simp_all add: w2_def enqueue_def)
  have "\<forall>n data. PostResponse data \<in> set (arrivals (env w2 n)) \<longrightarrow>
          getitem data ''id'' \<noteq> Inr (JStr i)"
    using never by (simp add: fr i_def)
  then have "\<forall>m. response_dict ((sleep 100 ^^ m) w2) (KStr i) = None"
    using absent by (simp add: sleeps_other_key fr i_def)
  from wait_times_out [OF this, of command "clock w" timeout]
  obtain m where m:
    "send_command_wait i command (clock w) timeout w2 =
       (Inl (TimeoutError (''Extension did not respond to '' @ command)), (sleep 100 ^^ m) w2)"
    "timeout < clock ((sleep 100 ^^ m) w2) - clock w"
    "\<forall>j<m. clock ((sleep 100 ^^ j) w2) - clock w \<le> timeout"
    by blast
  have run: "bridge_send_command command params timeout w =
       (Inl (TimeoutError (''Extension did not respond to '' @ command)), (sleep 100 ^^ m) w2)"
    using m(1) by (simp add: bridge_send_command_unfold i_def w2_def del: send_command_wait.simps)
  have "m \<noteq> 0"
  proof
    assume "m = 0"
    with m(2) T show False by (simp add: fr)
  qed
  then obtain j where j: "m = Suc j" by (cases m) auto
  have before: "clock ((sleep 100 ^^ j) w2) - clock w \<le> timeout"
    using m(3) j by simp
  have step: "clock ((sleep 100 ^^ m) w2)
        = clock ((sleep 100 ^^ j) w2) + 100 + int (overshoot (env w (naps w2 + j)))"
    by (simp add: j sleep_frame sleeps_frame fr)
  have bound: "\<forall>d. (\<forall>n. overshoot (env w n) \<le> d) \<longrightarrow>
      clock ((sleep 100 ^^ m) w2) - clock w \<le> timeout + 100 + int d"
  proof (intro allI impI)
    fix d assume "\<forall>n. overshoot (env w n) \<le> d"
    then have "int (overshoot (env w (naps w2 + j))) \<le> int d" by simp
    with before step show "clock ((sleep 100 ^^ m) w2) - clock w \<le> timeout + 100 + int d"
      by linarith
  qed
  show ?thesis
    using run m(2) bound unfolding i_def w2_def by (intro exI [of _ m]) simp
qed

theorem send_command_times_out_witness:
  "fst (bridge_send_command ''get_active_tab'' JNull 250 quiet_world)
     = Inl (TimeoutError ''Extension did not respond to get_active_tab'') \<and>
   250 < clock (snd (bridge_send_command ''get_active_tab'' JNull 250 quiet_world)) \<and>
   clock (snd (bridge_send_command ''get_active_tab'' JNull 250 quiet_world)) \<le> 350"
proof -
  have a: "(0::int) \<le> 250" by simp
  have b: "response_dict quiet_world (KStr (uuid_source quiet_world (uuid_calls quiet_world))) = None"
    by (simp add: quiet_world_def)
  have c: "\<forall>n data. PostResponse data \<in> set (arrivals (env quiet_world n)) \<longrightarrow>
      getitem data ''id'' \<noteq> Inr (JStr (uuid_source quiet_world (uuid_calls quiet_world)))"
    by (simp add: quiet_world_def idle_def)
  have d: "\<forall>n. overshoot (env quiet_world n) \<le> 0" by (simp add: quiet_world_def idle_def)
  have e: "clock quiet_world = 0" by (simp add: quiet_world_def)
  from send_command_times_out [OF a b c, of "''get_active_tab''" JNull]
  obtain m where r: "bridge_send_command ''get_active_tab'' JNull 250 quiet_world =
         (Inl (TimeoutError (''Extension did not respond to '' @ ''get_active_tab'')),
          (sleep 100 ^^ m)
           (enqueue (command_obj (uuid_source quiet_world (uuid_calls quiet_world))
               ''get_active_tab'' JNull)
             (quiet_world\<lparr>uuid_calls := Suc (uuid_calls quiet_world)\<rparr>)))"
    and lo: "250 < clock (snd (bridge_send_command ''get_active_tab'' JNull 250 quiet_world))
                 - clock quiet_world"
    and hi: "\<forall>d. (\<forall>n. overshoot (env quiet_world n) \<le> d) \<longrightarrow>
              clock (snd (bridge_send_command ''get_active_tab'' JNull 250 quiet_world))
                - clock quiet_world \<le> 250 + 100 + int d"
    by blast
  from hi d have "clock (snd (bridge_send_command ''get_active_tab'' JNull 250 quiet_world))
                - clock quiet_world \<le> 250 + 100 + int 0" by blast
  with r lo e show ?thesis by simp
qed

text \<open>
  C5. \<^verbatim>\<open>get_command\<close> is a total, loop-free function of the server state: on a
  non-empty queue it removes the head and returns it, on an empty queue it returns the
  null sentinel and leaves the queue empty. Nothing else of the state changes.
\<close>

theorem get_command_claims_head:
  "(command_queue st = [] \<longrightarrow>
      get_command st = (JNull, st) \<and> command_queue (snd (get_command st)) = []) \<and>
   (\<forall>cmd rest. command_queue st = cmd # rest \<longrightarrow>
      get_command st = (cmd, st\<lparr>command_queue := rest\<rparr>) \<and>
      command_queue (snd (get_command st)) = rest \<and>
      response_dict (snd (get_command st)) = response_dict st)"
  by (simp add: get_command_def)

theorem get_command_claims_head_witness:
  "get_command (enqueue (command_obj ''a'' ''get_active_tab'' JNull) bridge0)
     = (command_obj ''a'' ''get_active_tab'' JNull, bridge0) \<and>
   get_command bridge0 = (JNull, bridge0)"
  using get_command_claims_head [of "enqueue (command_obj ''a'' ''get_active_tab'' JNull) bridge0"]
        get_command_claims_head [of bridge0]
  by (simp add: enqueue_def bridge0_def)

text \<open>
  C6. For every history of appends and polls from the empty queue, the commands the polls
  returned, followed by the commands still queued, are the commands appended, in the
  order of their appending: polls return commands in FIFO order, and every appended
  command is either still queued or was returned by exactly one poll.
\<close>

theorem queue_is_fifo_and_claims_once:
  "claimed (fst (run_ops ops bridge0)) @ command_queue (snd (run_ops ops bridge0)) = enqueued ops \<and>
   (\<forall>k < length (claimed (fst (run_ops ops bridge0))).
      claimed (fst (run_ops ops bridge0)) ! k = enqueued ops ! k)"
proof -
  have e: "claimed (fst (run_ops ops bridge0)) @ command_queue (snd (run_ops ops bridge0)) = enqueued ops"
    using run_ops_conserves [of bridge0 ops] by (simp add: bridge0_def)
  have "\<forall>k < length (claimed (fst (run_ops ops bridge0))).
      claimed (fst (run_ops ops bridge0)) ! k = enqueued ops ! k"
    by (metis e nth_append)
  with e show ?thesis by blast
qed

theorem queue_is_fifo_and_claims_once_witness:
  "claimed (fst (run_ops [Enqueue ''a'' ''get_active_tab'' JNull, Claim,
                           Enqueue ''b'' ''get_all_tabs'' JNull,
                           Enqueue ''c'' ''get_active_tab'' JNull, Claim, Claim, Claim] bridge0))
     = [command_obj ''a'' ''get_active_tab'' JNull, command_obj ''b'' ''get_all_tabs'' JNull,
        command_obj ''c'' ''get_active_tab'' JNull] \<and>
   command_queue (snd (run_ops [Enqueue ''a'' ''get_active_tab'' JNull, Claim,
                           Enqueue ''b'' ''get_all_tabs'' JNull,
                           Enqueue ''c'' ''get_active_tab'' JNull, Claim, Claim, Claim] bridge0)) = []"
  using queue_is_fifo_and_claims_once [of "[Enqueue ''a'' ''get_active_tab'' JNull, Claim,
                           Enqueue ''b'' ''get_all_tabs'' JNull,
                           Enqueue ''c'' ''get_active_tab'' JNull, Claim, Claim, Claim]"]
  by (simp add: bridge0_def enqueue_def get_command_def claimed_def command_obj_def)

text \<open>
  C7. Whenever \<^verbatim>\<open>send_command\<close> returns a response, that response stood in the
  table under the call's identifier after some number of naps, and the returned world is
  that world with the entry removed, so a second lookup finds nothing. \<^verbatim>\<open>get_active_tab\<close>
  then returns the response's \<^verbatim>\<open>data\<close> when \<^verbatim>\<open>success\<close> is true, and raises
  an exception carrying the response's \<^verbatim>\<open>error\<close> when \<^verbatim>\<open>success\<close> is false.
\<close>

theorem response_consumed_once_then_decoded:
  "(\<forall>response w'. bridge_send_command command params timeout w = (Inr response, w') \<longrightarrow>
      response_dict w' (KStr (fst (uuid4_str w))) = None \<and>
      (\<exists>m. response_dict
              ((sleep 100 ^^ m)
                 (enqueue (command_obj (fst (uuid4_str w)) command params) (snd (uuid4_str w))))
              (KStr (fst (uuid4_str w))) = Some response \<and>
           w' = ((sleep 100 ^^ m)
                   (enqueue (command_obj (fst (uuid4_str w)) command params) (snd (uuid4_str w))))
                 \<lparr>response_dict :=
                    (response_dict
                       ((sleep 100 ^^ m)
                          (enqueue (command_obj (fst (uuid4_str w)) command params)
                             (snd (uuid4_str w)))))
                    (KStr (fst (uuid4_str w)) := None)\<rparr>)) \<and>
   (\<forall>kvs w' d. bridge_send_command ''get_active_tab'' JNull 5000 w = (Inr (JObj kvs), w') \<and>
       map_of kvs ''success'' = Some (JBool True) \<and> map_of kvs ''data'' = Some d \<longrightarrow>
       get_active_tab w = (Inr d, w')) \<and>
   (\<forall>kvs w' e. bridge_send_command ''get_active_tab'' JNull 5000 w = (Inr (JObj kvs), w') \<and>
       map_of kvs ''success'' = Some (JBool False) \<and> map_of kvs ''error'' = Some e \<longrightarrow>
       get_active_tab w = (Inl (Exception e), w'))"
proof -
  have a: "response_dict w' (KStr (fst (uuid4_str w))) = None \<and>
      (\<exists>m. response_dict
              ((sleep 100 ^^ m)
                 (enqueue (command_obj (fst (uuid4_str w)) command params) (snd (uuid4_str w))))
              (KStr (fst (uuid4_str w))) = Some response \<and>
           w' = ((sleep 100 ^^ m)
                   (enqueue (command_obj (fst (uuid4_str w)) command params) (snd (uuid4_str w))))
                 \<lparr>response_dict :=
                    (response_dict
                       ((sleep 100 ^^ m)
                          (enqueue (command_obj (fst (uuid4_str w)) command params)
                             (snd (uuid4_str w)))))
                    (KStr (fst (uuid4_str w)) := None)\<rparr>)"
    if "bridge_send_command command params timeout w = (Inr response, w')" for response w'
  proof -
    from that have "send_command_wait (uuid_source w (uuid_calls w)) command (clock w) timeout
       (enqueue (command_obj (uuid_source w (uuid_calls w)) command params)
          (w\<lparr>uuid_calls := Suc (uuid_calls w)\<rparr>)) = (Inr response, w')"
      by (simp add: bridge_send_command_unfold del: send_command_wait.simps)
    from wait_returns [OF this] show ?thesis
      by (auto simp: uuid4_str_def)
  qed
  have b: "get_active_tab w = (Inr d, w')"
    if "bridge_send_command ''get_active_tab'' JNull 5000 w = (Inr (JObj kvs), w')"
      "map_of kvs ''success'' = Some (JBool True)" "map_of kvs ''data'' = Some d" for kvs w' d
    using that by (simp add: get_active_tab_def decode_response_cases)
  have c: "get_active_tab w = (Inl (Exception e), w')"
    if "bridge_send_command ''get_active_tab'' JNull 5000 w = (Inr (JObj kvs), w')"
      "map_of kvs ''success'' = Some (JBool False)" "map_of kvs ''error'' = Some e" for kvs w' e
    using that by (simp add: get_active_tab_def decode_response_cases)
  from a b c show ?thesis by blast
qed

theorem response_consumed_once_then_decoded_witness:
  "get_active_tab answering_world =
     (Inr tab_A, answering_world\<lparr>uuid_calls := 1, clock := 100, naps := 1\<rparr>) \<and>
   response_dict (snd (get_active_tab answering_world)) (KStr ''u'') = None \<and>
   get_active_tab refusing_world =
     (Inl (Exception (JStr ''no active tab'')),
      refusing_world\<lparr>uuid_calls := 1, clock := 100, naps := 1\<rparr>)"
proof -
  have u: "fst (uuid4_str answering_world) = ''u''"
    by (simp add: uuid4_str_def answering_world_def quiet_world_def)
  from response_consumed_once_then_decoded
         [where w = answering_world and command = "''get_active_tab''" and params = JNull
            and timeout = 5000]
       answering_run u
  have "get_active_tab answering_world =
          (Inr tab_A, answering_world\<lparr>uuid_calls := 1, clock := 100, naps := 1\<rparr>) \<and>
        response_dict (answering_world\<lparr>uuid_calls := 1, clock := 100, naps := 1\<rparr>) (KStr ''u'') = None"
    by simp
  moreover
  from response_consumed_once_then_decoded
         [where w = refusing_world and command = "''get_active_tab''" and params = JNull
            and timeout = 5000]
       refusing_run
  have "get_active_tab refusing_world =
     (Inl (Exception (JStr ''no active tab'')),
      refusing_world\<lparr>uuid_calls := 1, clock := 100, naps := 1\<rparr>)"
    by simp
  ultimately show ?thesis by simp
qed

text \<open>
  C8. For every table and every body with an \<^verbatim>\<open>id\<close> (a hashable JSON value) and a
  \<^verbatim>\<open>result\<close>, \<^verbatim>\<open>post_response\<close> answers \<^verbatim>\<open>{'status': 'ok'}\<close> and the table then
  maps the id to the result; every other entry and the queue are unchanged; a second
  post for the same id leaves the state as if only the second had been made.
\<close>

theorem post_response_overwrites:
  "map_of body ''id'' = Some i \<and> map_of body ''result'' = Some r \<and> as_key i = Some k \<longrightarrow>
     post_response (JObj body) st =
       (Inr (JObj [(''status'', JStr ''ok'')]), st\<lparr>response_dict := (response_dict st)(k \<mapsto> r)\<rparr>) \<and>
     response_dict (snd (post_response (JObj body) st)) k = Some r \<and>
     (\<forall>k'. k' \<noteq> k \<longrightarrow> response_dict (snd (post_response (JObj body) st)) k' = response_dict st k') \<and>
     command_queue (snd (post_response (JObj body) st)) = command_queue st \<and>
     (\<forall>body' i' r'. map_of body' ''id'' = Some i' \<and> map_of body' ''result'' = Some r' \<and>
        as_key i' = Some k \<longrightarrow>
        snd (post_response (JObj body') (snd (post_response (JObj body) st)))
          = snd (post_response (JObj body') st))"
  by (auto simp: post_response_wellformed)

theorem post_response_overwrites_witness:
  "post_response (JObj [(''id'', JStr ''u1''), (''result'', JInt 2)])
     (snd (post_response (JObj [(''id'', JStr ''u1''), (''result'', JInt 1)]) bridge0))
   = (Inr (JObj [(''status'', JStr ''ok'')]),
      bridge0\<lparr>response_dict := (response_dict bridge0)(KStr ''u1'' \<mapsto> JInt 2)\<rparr>)"
  using post_response_overwrites [where body = "[(''id'', JStr ''u1''), (''result'', JInt 1)]"
          and i = "JStr ''u1''" and r = "JInt 1" and k = "KStr ''u1''" and st = bridge0]
  by (simp add: bridge0_def post_response_def)

text \<open>
  C9. Every call of \<^verbatim>\<open>send_command\<close> appends exactly one command to the queue, and
  the \<^verbatim>\<open>'id'\<close> member of that command is the string \<^verbatim>\<open>uuid.uuid4()\<close> handed out
  for this call, which is also the key the call then waits on. Each call takes exactly
  one identifier from \<^verbatim>\<open>uuid4\<close>, whatever its outcome, so the ids on the commands of
  a run of calls are consecutive draws of \<^verbatim>\<open>uuid4\<close>, none used twice, also after a
  call that failed. Hence the ids on the commands sent are pairwise distinct whenever the
  identifiers \<^verbatim>\<open>uuid4\<close> hands out are.
\<close>

theorem command_ids_pairwise_distinct:
  "appended command params w = [command_obj (fst (uuid4_str w)) command params] \<and>
   map (\<lambda>cmd. getitem cmd ''id'') (appended command params w) = [Inr (JStr (fst (uuid4_str w)))] \<and>
   bridge_send_command command params timeout w =
     send_command_wait (fst (uuid4_str w)) command (clock w) timeout
       (queue_command command params w) \<and>
   uuid_calls (snd (bridge_send_command command params timeout w)) = Suc (uuid_calls w) \<and>
   uuid_source (snd (bridge_send_command command params timeout w)) = uuid_source w \<and>
   issued_ids calls w =
     map (\<lambda>n. Inr (JStr (uuid_source w n))) [uuid_calls w ..< uuid_calls w + length calls] \<and>
   ((\<forall>m n. uuid_calls w \<le> m \<and> m < n \<longrightarrow> uuid_source w m \<noteq> uuid_source w n) \<longrightarrow>
      distinct (issued_ids calls w))"
proof -
  have d: "distinct (issued_ids calls w)"
    if fresh: "\<forall>m n. uuid_calls w \<le> m \<and> m < n \<longrightarrow> uuid_source w m \<noteq> uuid_source w n"
  proof -
    have "inj_on (\<lambda>n. (Inr (JStr (uuid_source w n)) :: py_error + json))
            (set [uuid_calls w ..< uuid_calls w + length calls])"
    proof (rule inj_onI)
      fix a b
      assume a: "a \<in> set [uuid_calls w ..< uuid_calls w + length calls]"
        and b: "b \<in> set [uuid_calls w ..< uuid_calls w + length calls]"
        and "(Inr (JStr (uuid_source w a)) :: py_error + json) = Inr (JStr (uuid_source w b))"
      then have eq: "uuid_source w a = uuid_source w b" by simp
      show "a = b"
      proof (rule ccontr)
        assume "a \<noteq> b"
        then consider "a < b" | "b < a" by linarith
        then show False
        proof cases
          case 1
          with a fresh have "uuid_source w a \<noteq> uuid_source w b" by simp
          with eq show False by simp
        next
          case 2
          with b fresh have "uuid_source w b \<noteq> uuid_source w a" by simp
          with eq show False by simp
        qed
      qed
    qed
    then show ?thesis
      by (simp add: issued_ids_are_draws distinct_map)
  qed
  have a: "appended command params w = [command_obj (fst (uuid4_str w)) command params]"
    by (simp add: appended_one uuid4_str_def)
  have i: "map (\<lambda>cmd. getitem cmd ''id'') (appended command params w)
             = [Inr (JStr (fst (uuid4_str w)))]"
    by (simp add: a command_obj_id)
  from d a i show ?thesis
    using issued_ids_are_draws [of calls w]
      bridge_send_command_draws_once [of command params timeout w]
      bridge_send_command_queues_then_waits [of command params timeout w]
    by blast
qed

theorem command_ids_pairwise_distinct_witness:
  "distinct (issued_ids [(''get_active_tab'', JNull, 0), (''get_all_tabs'', JNull, 0),
                         (''get_active_tab'', JNull, 0)] quiet_world) \<and>
   issued_ids [(''get_active_tab'', JNull, 0), (''get_all_tabs'', JNull, 0),
               (''get_active_tab'', JNull, 0)] quiet_world
     = [Inr (JStr ''u''), Inr (JStr ''uu''), Inr (JStr ''uuu'')]"
proof -
  have h: "\<forall>m n. uuid_calls quiet_world \<le> m \<and> m < n \<longrightarrow>
             uuid_source quiet_world m \<noteq> uuid_source quiet_world n"
    by (simp add: quiet_world_def)
  have l: "[uuid_calls quiet_world ..< uuid_calls quiet_world +
             length [(''get_active_tab'', JNull, 0::int), (''get_all_tabs'', JNull, 0),
                     (''get_active_tab'', JNull, 0)]] = [0, 1, 2]"
    by (simp add: quiet_world_def upt_rec)
  from command_ids_pairwise_distinct [of _ _ quiet_world _ "[(''get_active_tab'', JNull, 0),
      (''get_all_tabs'', JNull, 0), (''get_active_tab'', JNull, 0)]"] h
  have "distinct (issued_ids [(''get_active_tab'', JNull, 0), (''get_all_tabs'', JNull, 0),
                         (''get_active_tab'', JNull, 0)] quiet_world)"
    and "issued_ids [(''get_active_tab'', JNull, 0), (''get_all_tabs'', JNull, 0),
               (''get_active_tab'', JNull, 0)] quiet_world =
         map (\<lambda>n. Inr (JStr (uuid_source quiet_world n)))
           [uuid_calls quiet_world ..< uuid_calls quiet_world +
             length [(''get_active_tab'', JNull, 0::int), (''get_all_tabs'', JNull, 0),
                     (''get_active_tab'', JNull, 0)]]"
    by blast+
  then show ?thesis
    by (simp only: l) (simp add: quiet_world_def numeral_2_eq_2)
qed

text \<open>
  C10. \<^verbatim>\<open>post_response\<close> never looks at the queue: for every body with an id and a
  result, whatever the queue holds and after any history of appends and polls (also one
  in which no command with that id was ever appended), the entry is stored and the
  answer is \<^verbatim>\<open>{'status': 'ok'}\<close>.
\<close>

theorem post_response_never_validates:
  "map_of body ''id'' = Some i \<and> map_of body ''result'' = Some r \<and> as_key i = Some k \<longrightarrow>
     post_response (JObj body) (st\<lparr>command_queue := q\<rparr>) =
       (Inr (JObj [(''status'', JStr ''ok'')]),
        st\<lparr>command_queue := q, response_dict := (response_dict st)(k \<mapsto> r)\<rparr>) \<and>
     fst (post_response (JObj body) (snd (run_ops ops bridge0))) = Inr (JObj [(''status'', JStr ''ok'')]) \<and>
     response_dict (snd (post_response (JObj body) (snd (run_ops ops bridge0)))) k = Some r"
  by (auto simp: post_response_wellformed)

theorem post_response_never_validates_witness:
  "post_response (JObj [(''id'', JStr ''nobody-asked''), (''result'', JBool True)]) bridge0 =
     (Inr (JObj [(''status'', JStr ''ok'')]),
      bridge0\<lparr>response_dict := (response_dict bridge0)(KStr ''nobody-asked'' \<mapsto> JBool True)\<rparr>)"
  using post_response_never_validates [where body = "[(''id'', JStr ''nobody-asked''), (''result'', JBool True)]"
          and i = "JStr ''nobody-asked''" and r = "JBool True" and k = "KStr ''nobody-asked''"
          and st = bridge0 and q = "[]" and ops = "[]"]
  by (simp add: bridge0_def)

end
